theory Spec2Isabelle
  imports
    Complex_Main
    "HOL-Library.AList"
    "HOL-Library.Product_Lexorder"
    "HOL-Library.Char_ord"
    "HOL-Library.List_Lexorder"
begin

section \<open>Conventions of the embedding\<close>

text \<open>
  The stock table (a pandas DataFrame with the default integer row labels, as the
  orchestrator builds it) is a list of rows addressed by position. Python integers are
  \<open>int\<close>. Floating-point values (\<open>Existencia\<close> once a quantity has been divided among
  rows, \<open>ADU\<close>, coverage, the safety ratio) are exact rationals, so rounding and the
  column's dtype are not part of the model; \<open>np.inf\<close> is the constructor \<open>PInf\<close>, and a
  missing number (NaN / None) is \<open>None\<close>. Dictionaries are association lists in insertion
  order, written with \<open>AList.update\<close> and read with \<open>map_of\<close>. Text columns are never
  missing, and \<open>str.upper\<close> and \<open>str.strip\<close> act on ASCII. Logging and the \<open>debug\<close> flag are
  left out: they change no state. A method that mutates its object returns the object
  after the call. Rows are read through the labels of the index only, which are always
  rows of the table (lemmas \<open>index_ok_build\<close>, \<open>execute_transfer_ok\<close> and their siblings).
\<close>

subsection \<open>config/settings.py\<close>

definition MIN_POR_SKU_TIENDA :: int where "MIN_POR_SKU_TIENDA = 2"
definition MIN_POR_SKU_ECOM :: int where "MIN_POR_SKU_ECOM = 3"
definition MAX_STOCK_PER_SKU :: int where "MAX_STOCK_PER_SKU = 6"
definition ORIGIN_MIN_COV_DAYS :: int where "ORIGIN_MIN_COV_DAYS = 7"
definition DEST_TARGET_COV_DAYS :: int where "DEST_TARGET_COV_DAYS = 7"
definition ORIGIN_MIN_COV_ECOM :: int where "ORIGIN_MIN_COV_ECOM = 7"
definition DEST_TARGET_COV_ECOM :: int where "DEST_TARGET_COV_ECOM = 7"
definition COV_BUFFER_DAYS :: int where "COV_BUFFER_DAYS = 1"

subsection \<open>Python primitives\<close>

text \<open>\<open>int(x)\<close> on a float truncates towards zero.\<close>

definition py_int :: "rat \<Rightarrow> int" where
  "py_int x = (if 0 \<le> x then \<lfloor>x\<rfloor> else \<lceil>x\<rceil>)"

text \<open>\<open>str.upper()\<close> and \<open>str.strip()\<close>, on ASCII text.\<close>

definition upper_char :: "char \<Rightarrow> char" where
  "upper_char c =
     (let n = (of_char c :: nat) in if 97 \<le> n \<and> n \<le> 122 then char_of (n - 32) else c)"

definition py_upper :: "string \<Rightarrow> string" where
  "py_upper s = map upper_char s"

definition is_space :: "char \<Rightarrow> bool" where
  "is_space c = (let n = (of_char c :: nat) in (9 \<le> n \<and> n \<le> 13) \<or> (28 \<le> n \<and> n \<le> 32))"

definition py_strip :: "string \<Rightarrow> string" where
  "py_strip s = rev (dropWhile is_space (rev (dropWhile is_space s)))"

fun starts_with :: "string \<Rightarrow> string \<Rightarrow> bool" where
  "starts_with [] s = True"
| "starts_with (p # ps) [] = False"
| "starts_with (p # ps) (c # cs) = (p = c \<and> starts_with ps cs)"

text \<open>\<open>pat in s\<close> on strings.\<close>

fun py_in :: "string \<Rightarrow> string \<Rightarrow> bool" where
  "py_in pat [] = (pat = [])"
| "py_in pat (c # cs) = (starts_with pat (c # cs) \<or> py_in pat cs)"

text \<open>The truth value of an optional string: \<open>None\<close> and \<open>''\<close> are false.\<close>

definition truthy :: "string option \<Rightarrow> bool" where
  "truthy b = (case b of None \<Rightarrow> False | Some s \<Rightarrow> s \<noteq> [])"

datatype py_float = Fin rat | PInf


subsection \<open>Tables\<close>

record stock_row =
  Tienda :: string
  SKU :: string
  Referencia :: string
  Talla :: string
  Existencia :: rat
  ADU :: "rat option"
  IsEcom :: bool
  MinObjetivo :: int
  Region :: "string option"
  RegionID :: "int option"
  Cobertura_dias :: py_float

record adu_row =
  adu_Tienda :: string
  adu_SKU :: string
  adu_ADU :: rat

record tiempos_row =
  t_O :: string
  t_D :: string
  t_ETA_NUM :: "rat option"
  t_PRI_NUM :: "rat option"

record transfer =
  Tienda_origen :: string
  Tienda_destino :: string
  Stock_origen_antes :: int
  Stock_origen_despues :: int
  Stock_destino_antes :: int
  Stock_destino_despues :: int
  Unidades_a_trasladar :: int
  tr_Referencia :: string
  tr_Talla :: string

type_synonym key = "string \<times> string"
type_synonym index = "(key \<times> nat list) list"

text \<open>\<open>stock_df['Existencia'].sum()\<close>\<close>

definition total_existencia :: "stock_row list \<Rightarrow> rat" where
  "total_existencia rows = sum_list (map Existencia rows)"

text \<open>
  \<open>stock_df.loc[indices, 'Existencia'] += d\<close>: every row whose label is among
  \<open>indices\<close> gets its quantity changed by \<open>d\<close>. The second argument is the label of the
  first row of the list.
\<close>

fun loc_add_from :: "nat \<Rightarrow> nat list \<Rightarrow> rat \<Rightarrow> stock_row list \<Rightarrow> stock_row list" where
  "loc_add_from k indices d [] = []"
| "loc_add_from k indices d (r # rs) =
     (if k \<in> set indices then r\<lparr>Existencia := Existencia r + d\<rparr> else r)
       # loc_add_from (Suc k) indices d rs"

definition loc_add :: "nat list \<Rightarrow> rat \<Rightarrow> stock_row list \<Rightarrow> stock_row list" where
  "loc_add indices d rows = loc_add_from 0 indices d rows"

text \<open>\<open>stock_df.loc[indices, 'Existencia'].sum()\<close>\<close>

definition loc_sum :: "stock_row list \<Rightarrow> nat list \<Rightarrow> rat" where
  "loc_sum rows indices = sum_list (map (\<lambda>i. Existencia (rows ! i)) indices)"

text \<open>
  \<open>_build_indexes\<close>: the dictionary from (Tienda, SKU) to the labels of its rows, in
  row order.
\<close>

definition index_append :: "key \<Rightarrow> nat \<Rightarrow> index \<Rightarrow> index" where
  "index_append k i idx =
     AList.update k ((case map_of idx k of None \<Rightarrow> [] | Some is \<Rightarrow> is) @ [i]) idx"

fun build_indexes_from :: "nat \<Rightarrow> stock_row list \<Rightarrow> index \<Rightarrow> index" where
  "build_indexes_from k [] idx = idx"
| "build_indexes_from k (r # rs) idx =
     build_indexes_from (Suc k) rs (index_append (Tienda r, SKU r) k idx)"

definition build_indexes :: "stock_row list \<Rightarrow> index" where
  "build_indexes rows = build_indexes_from 0 rows []"

text \<open>
  The invariant of an index over a table: every entry lists at least one label, no label
  twice, and every label is a row of the table that carries the entry's key.
\<close>

definition index_ok :: "stock_row list \<Rightarrow> index \<Rightarrow> bool" where
  "index_ok rows idx =
     list_all (\<lambda>(k, is). is \<noteq> [] \<and> distinct is
                 \<and> list_all (\<lambda>i. i < length rows \<and> (Tienda (rows ! i), SKU (rows ! i)) = k) is)
              idx"







section \<open>traslados/engine\_core.py\<close>

record engine =
  stock_df :: "stock_row list"
  adu_df :: "adu_row list"
  tiempos_df :: "tiempos_row list"
  bodega_principal :: "string option"
  no_seed :: bool
  allow_seed_if_adu :: bool
  transfers :: "transfer list"
  idx_tienda_sku :: index

definition assign_MinObjetivo :: "string option \<Rightarrow> stock_row \<Rightarrow> stock_row" where
  "assign_MinObjetivo bodega r =
     r\<lparr>MinObjetivo :=
         (if truthy bodega \<and> Some (Tienda r) = bodega then 0
          else if IsEcom r then MIN_POR_SKU_ECOM else MIN_POR_SKU_TIENDA)\<rparr>"

text \<open>\<open>TrasladosEngineCore.__init__\<close>\<close>

definition TrasladosEngineCore ::
  "stock_row list \<Rightarrow> adu_row list \<Rightarrow> tiempos_row list \<Rightarrow> string option \<Rightarrow> bool \<Rightarrow> bool \<Rightarrow> engine"
where
  "TrasladosEngineCore stock adu tiempos bodega ns asa =
     (let rows = map (assign_MinObjetivo bodega) stock in
      \<lparr>stock_df = rows, adu_df = adu, tiempos_df = tiempos, bodega_principal = bodega,
       no_seed = ns, allow_seed_if_adu = asa, transfers = [],
       idx_tienda_sku = build_indexes rows\<rparr>)"

text \<open>\<open>_get_adu_for_sku\<close>: the first row of \<open>adu_df\<close> for the store whose SKU matches
  after stripping and upper-casing; 0.0 when there is none.\<close>

definition get_adu_for_sku :: "engine \<Rightarrow> string \<Rightarrow> string \<Rightarrow> rat" where
  "get_adu_for_sku e tienda sku =
     (case filter (\<lambda>a. adu_Tienda a = tienda
                        \<and> py_upper (py_strip (adu_SKU a)) = py_upper (py_strip sku))
                  (adu_df e) of
        [] \<Rightarrow> 0
      | a # _ \<Rightarrow> adu_ADU a)"

definition has_ref_now :: "stock_row list \<Rightarrow> string \<Rightarrow> string \<Rightarrow> bool" where
  "has_ref_now rows tienda referencia =
     (filter (\<lambda>r. Tienda r = tienda \<and> Referencia r = referencia \<and> Existencia r > 0) rows \<noteq> [])"

definition can_seed_to_store :: "engine \<Rightarrow> string \<Rightarrow> string \<Rightarrow> string \<Rightarrow> bool" where
  "can_seed_to_store e tienda referencia sku =
     (if has_ref_now (stock_df e) tienda referencia then True
      else if no_seed e then
        (if allow_seed_if_adu e \<and> get_adu_for_sku e tienda sku > 0 then True else False)
      else True)"

definition get_stock :: "engine \<Rightarrow> string \<Rightarrow> string \<Rightarrow> int" where
  "get_stock e tienda sku =
     (case map_of (idx_tienda_sku e) (tienda, sku) of
        None \<Rightarrow> 0
      | Some indices \<Rightarrow> py_int (loc_sum (stock_df e) indices))"

definition adu_of :: "stock_row \<Rightarrow> rat" where
  "adu_of row = (case ADU row of None \<Rightarrow> 0 | Some a \<Rightarrow> a)"

definition get_cobertura :: "engine \<Rightarrow> string \<Rightarrow> string \<Rightarrow> py_float" where
  "get_cobertura e tienda sku =
     (case map_of (idx_tienda_sku e) (tienda, sku) of
        None \<Rightarrow> PInf
      | Some indices \<Rightarrow>
          (let row = stock_df e ! hd indices;
               adu = adu_of row;
               stock = get_stock e tienda sku
           in if adu > 0 then Fin (of_int stock / adu) else PInf))"

definition allowed_to_send :: "engine \<Rightarrow> string \<Rightarrow> string \<Rightarrow> int" where
  "allowed_to_send e tienda sku =
     (case map_of (idx_tienda_sku e) (tienda, sku) of
        None \<Rightarrow> 0
      | Some indices \<Rightarrow>
          (let row = stock_df e ! hd indices;
               stock_actual = get_stock e tienda sku
           in if truthy (bodega_principal e) \<and> Some tienda = bodega_principal e
              then stock_actual
              else
                (let min_objetivo = MinObjetivo row;
                     adu = adu_of row;
                     min_cov_days = (if IsEcom row then ORIGIN_MIN_COV_ECOM else ORIGIN_MIN_COV_DAYS);
                     guardar = (if adu > 0
                                then max min_objetivo \<lceil>of_int min_cov_days * adu\<rceil>
                                else min_objetivo)
                 in max 0 (stock_actual - guardar))))"

definition calculate_target_units :: "engine \<Rightarrow> string \<Rightarrow> string \<Rightarrow> int" where
  "calculate_target_units e tienda sku =
     (case map_of (idx_tienda_sku e) (tienda, sku) of
        None \<Rightarrow> MIN_POR_SKU_TIENDA
      | Some indices \<Rightarrow>
          (let row = stock_df e ! hd indices;
               min_objetivo = MinObjetivo row;
               adu = adu_of row;
               target_cov_days = (if IsEcom row then DEST_TARGET_COV_ECOM else DEST_TARGET_COV_DAYS);
               target = (if adu > 0
                         then max min_objetivo \<lceil>of_int target_cov_days * adu\<rceil>
                         else min_objetivo)
           in min target MAX_STOCK_PER_SKU))"

record need_row =
  n_Tienda :: string
  n_SKU :: string
  n_Referencia :: string
  n_Talla :: string
  n_Necesita :: int
  n_IsEcom :: bool
  n_ADU :: "rat option"

definition need_of :: "stock_row \<Rightarrow> need_row" where
  "need_of r =
     (let necesita = py_int (of_int (MinObjetivo r) - Existencia r);
          cap_max = of_int MAX_STOCK_PER_SKU - Existencia r
      in \<lparr>n_Tienda = Tienda r, n_SKU = SKU r, n_Referencia = Referencia r, n_Talla = Talla r,
          n_Necesita = py_int (max 0 (min (of_int necesita) cap_max)),
          n_IsEcom = IsEcom r, n_ADU = ADU r\<rparr>)"

text \<open>Descending \<open>ADU\<close>, missing values last; rows of equal \<open>ADU\<close> keep the table's order.\<close>

definition adu_desc_key :: "rat option \<Rightarrow> nat \<times> rat" where
  "adu_desc_key a = (case a of None \<Rightarrow> (1, 0) | Some x \<Rightarrow> (0, - x))"

definition identify_base_needs :: "engine \<Rightarrow> need_row list" where
  "identify_base_needs e =
     (let mask = (\<lambda>r. Existencia r < of_int (MinObjetivo r)
                        \<and> (truthy (bodega_principal e) \<longrightarrow> Some (Tienda r) \<noteq> bodega_principal e));
          needs = map need_of (filter mask (stock_df e));
          needs = filter (\<lambda>n. n_Necesita n > 0) needs
      in sort_key (\<lambda>n. adu_desc_key (n_ADU n)) needs)"

definition get_region_info :: "engine \<Rightarrow> string \<Rightarrow> int option \<times> string option" where
  "get_region_info e tienda =
     (case filter (\<lambda>r. Tienda r = tienda) (stock_df e) of
        [] \<Rightarrow> (None, None)
      | r # _ \<Rightarrow> (RegionID r, Region r))"

definition check_same_region :: "engine \<Rightarrow> string \<Rightarrow> string \<Rightarrow> bool" where
  "check_same_region e tienda_a tienda_b =
     (let region_a = get_region_info e tienda_a; region_b = get_region_info e tienda_b in
      case (fst region_a, fst region_b) of
        (Some ia, Some ib) \<Rightarrow> ia = ib
      | _ \<Rightarrow>
          (case (snd region_a, snd region_b) of
             (Some ra, Some rb) \<Rightarrow> py_upper (py_strip ra) = py_upper (py_strip rb)
           | _ \<Rightarrow> False))"

definition tiempos_match :: "engine \<Rightarrow> string \<Rightarrow> string \<Rightarrow> tiempos_row list" where
  "tiempos_match e origen destino =
     filter (\<lambda>t. t_O t = py_upper (py_strip origen) \<and> t_D t = py_upper (py_strip destino))
            (tiempos_df e)"

definition get_delivery_priority :: "engine \<Rightarrow> string \<Rightarrow> string \<Rightarrow> rat option" where
  "get_delivery_priority e origen destino =
     (case tiempos_match e origen destino of [] \<Rightarrow> None | t # _ \<Rightarrow> t_PRI_NUM t)"

definition get_delivery_days :: "engine \<Rightarrow> string \<Rightarrow> string \<Rightarrow> rat option" where
  "get_delivery_days e origen destino =
     (case tiempos_match e origen destino of [] \<Rightarrow> None | t # _ \<Rightarrow> t_ETA_NUM t)"

text \<open>The body of the candidate loop of \<open>rank_origins_for_sku\<close>: does the entry
  \<open>(tienda, sku_check)\<close> of the index reach \<open>candidates.append\<close>?\<close>

definition is_candidate :: "engine \<Rightarrow> string \<Rightarrow> string \<Rightarrow> key \<Rightarrow> bool" where
  "is_candidate e sku dest_tienda k =
     (case k of (tienda, sku_check) \<Rightarrow>
        if sku_check \<noteq> sku then False
        else if tienda = dest_tienda then False
        else if allowed_to_send e tienda sku \<le> 0 then False
        else
          (case (get_cobertura e tienda sku, get_cobertura e dest_tienda sku) of
             (Fin cov_origen, Fin cov_destino) \<Rightarrow>
                \<not> (cov_origen \<le> cov_destino + of_int COV_BUFFER_DAYS)
           | _ \<Rightarrow> True))"

definition candidates :: "engine \<Rightarrow> string \<Rightarrow> string \<Rightarrow> string list" where
  "candidates e sku dest_tienda =
     map (\<lambda>(k, indices). fst k)
         (filter (\<lambda>(k, indices). is_candidate e sku dest_tienda k) (idx_tienda_sku e))"

definition rank_tuple :: "engine \<Rightarrow> string \<Rightarrow> string \<Rightarrow> string \<Rightarrow> (int \<times> int \<times> rat \<times> rat) \<times> string"
where
  "rank_tuple e sku dest_tienda origen =
     (let region_rank = (if check_same_region e origen dest_tienda then 0 else 1);
          priority_rank = (case get_delivery_priority e origen dest_tienda of
                             Some p \<Rightarrow> py_int p | None \<Rightarrow> 999);
          cov_rank = - (case get_cobertura e origen sku of Fin c \<Rightarrow> c | PInf \<Rightarrow> 1000000000);
          time_rank = (case get_delivery_days e origen dest_tienda of
                         Some t \<Rightarrow> t | None \<Rightarrow> 999)
      in ((region_rank, priority_rank, cov_rank, time_rank), origen))"

definition rank_origins_for_sku :: "engine \<Rightarrow> string \<Rightarrow> string \<Rightarrow> string \<Rightarrow> string list" where
  "rank_origins_for_sku e sku dest_tienda dest_referencia =
     (let ranked = map (rank_tuple e sku dest_tienda) (candidates e sku dest_tienda);
          origins_sorted = map snd (sort_key fst ranked)
      in case bodega_principal e of
           None \<Rightarrow> origins_sorted
         | Some bodega \<Rightarrow>
             if bodega \<noteq> [] \<and> bodega \<in> set origins_sorted
             then bodega # remove1 bodega origins_sorted
             else origins_sorted)"

text \<open>\<open>_create_new_stock_row\<close>; the copied \<open>Tipo\<close> and the constant \<open>RANGO_CAT\<close> columns
  are read nowhere and are not part of \<open>stock_row\<close>.\<close>

definition create_new_stock_row ::
  "engine \<Rightarrow> string \<Rightarrow> string \<Rightarrow> string \<Rightarrow> string \<Rightarrow> int \<Rightarrow> stock_row" where
  "create_new_stock_row e tienda sku referencia talla cantidad =
     (let tienda_rows = filter (\<lambda>r. Tienda r = tienda) (stock_df e);
          region = (case tienda_rows of [] \<Rightarrow> None | s # _ \<Rightarrow> Region s);
          region_id = (case tienda_rows of [] \<Rightarrow> None | s # _ \<Rightarrow> RegionID s);
          is_ecom = (case tienda_rows of [] \<Rightarrow> py_in ''ECOM'' (py_upper tienda) | s # _ \<Rightarrow> IsEcom s);
          adu = get_adu_for_sku e tienda sku;
          min_objetivo = (if is_ecom then MIN_POR_SKU_ECOM else MIN_POR_SKU_TIENDA);
          cobertura = (if adu > 0 then Fin (of_int cantidad / adu) else PInf)
      in \<lparr>Tienda = tienda, SKU = sku, Referencia = referencia, Talla = talla,
          Existencia = of_int cantidad, ADU = Some adu, IsEcom = is_ecom,
          MinObjetivo = min_objetivo, Region = region, RegionID = region_id,
          Cobertura_dias = cobertura\<rparr>)"

text \<open>\<open>execute_transfer\<close> returns its boolean together with the engine after the call.\<close>

definition execute_transfer ::
  "engine \<Rightarrow> string \<Rightarrow> string \<Rightarrow> string \<Rightarrow> int \<Rightarrow> string \<Rightarrow> string \<Rightarrow> bool \<times> engine" where
  "execute_transfer e origen destino sku cantidad referencia talla =
     (let key_origen = (origen, sku); key_destino = (destino, sku) in
      if map_of (idx_tienda_sku e) key_destino = None
         \<and> \<not> can_seed_to_store e destino referencia sku
      then (False, e)
      else
        (let stock_origen_antes = get_stock e origen sku;
             stock_destino_antes = get_stock e destino sku;
             e1 = (case map_of (idx_tienda_sku e) key_origen of
                     None \<Rightarrow> e
                   | Some indices_origen \<Rightarrow>
                       e\<lparr>stock_df :=
                           loc_add indices_origen
                             (- (of_int cantidad / of_nat (length indices_origen)))
                             (stock_df e)\<rparr>);
             e2 = (case map_of (idx_tienda_sku e1) key_destino of
                     Some indices_destino \<Rightarrow>
                       e1\<lparr>stock_df :=
                            loc_add indices_destino
                              (of_int cantidad / of_nat (length indices_destino))
                              (stock_df e1)\<rparr>
                   | None \<Rightarrow>
                       (let new_row = create_new_stock_row e1 destino sku referencia talla cantidad;
                            new_index = length (stock_df e1)
                        in e1\<lparr>stock_df := stock_df e1 @ [new_row],
                              idx_tienda_sku :=
                                AList.update key_destino [new_index] (idx_tienda_sku e1)\<rparr>));
             stock_origen_despues = get_stock e2 origen sku;
             stock_destino_despues = get_stock e2 destino sku
         in (True,
             e2\<lparr>transfers := transfers e2 @
                  [\<lparr>Tienda_origen = origen, Tienda_destino = destino,
                    Stock_origen_antes = stock_origen_antes,
                    Stock_origen_despues = stock_origen_despues,
                    Stock_destino_antes = stock_destino_antes,
                    Stock_destino_despues = stock_destino_despues,
                    Unidades_a_trasladar = cantidad,
                    tr_Referencia = referencia, tr_Talla = talla\<rparr>]\<rparr>)))"

text \<open>The loop over the ranked origins in \<open>process_base_needs\<close>, for one need; \<open>gap\<close> is
  the loop's running gap. The counters of the method are only logged.\<close>

fun fill_from_origins ::
  "engine \<Rightarrow> string \<Rightarrow> string \<Rightarrow> string \<Rightarrow> string \<Rightarrow> int \<Rightarrow> string list \<Rightarrow> engine" where
  "fill_from_origins e tienda sku ref talla gap [] = e"
| "fill_from_origins e tienda sku ref talla gap (origen # rest) =
     (if gap \<le> 0 then e
      else
        (let disponible = allowed_to_send e origen sku in
         if disponible \<le> 0 then fill_from_origins e tienda sku ref talla gap rest
         else
           (let stock_actual_dest = get_stock e tienda sku;
                cap_disponible = max 0 (MAX_STOCK_PER_SKU - stock_actual_dest);
                qty = min disponible (min gap cap_disponible)
            in if qty > 0
               then (case execute_transfer e origen tienda sku qty ref talla of
                       (success, e') \<Rightarrow>
                         if success
                         then fill_from_origins e' tienda sku ref talla (gap - qty) rest
                         else fill_from_origins e' tienda sku ref talla gap rest)
               else fill_from_origins e tienda sku ref talla gap rest)))"

definition process_need :: "engine \<Rightarrow> need_row \<Rightarrow> engine" where
  "process_need e need =
     (let tienda = n_Tienda need; sku = n_SKU need; ref = n_Referencia need;
          talla = n_Talla need
      in if map_of (idx_tienda_sku e) (tienda, sku) = None
            \<and> \<not> can_seed_to_store e tienda ref sku
         then e
         else
           (let target = calculate_target_units e tienda sku;
                origins = rank_origins_for_sku e sku tienda ref
            in if origins = [] then e
               else
                 (let stock_inicial = get_stock e tienda sku;
                      gap = max 0 (target - stock_inicial)
                  in fill_from_origins e tienda sku ref talla gap origins)))"

definition process_base_needs :: "engine \<Rightarrow> need_row list \<Rightarrow> engine" where
  "process_base_needs e needs_df = foldl process_need e needs_df"

text \<open>\<open>TrasladosOrchestrator.run_fase1_necesidades_base\<close>: the engine after phase 1, whose
  \<open>stock_df\<close> and \<open>transfers\<close> the orchestrator keeps.\<close>

definition run_fase1 ::
  "stock_row list \<Rightarrow> adu_row list \<Rightarrow> tiempos_row list \<Rightarrow> string option \<Rightarrow> bool \<Rightarrow> bool \<Rightarrow> engine"
where
  "run_fase1 stock adu tiempos bodega ns asa =
     (let engine = TrasladosEngineCore stock adu tiempos bodega ns asa
      in process_base_needs engine (identify_base_needs engine))"

section \<open>traslados/bodega\_drainer.py\<close>

type_synonym adu_index = "(key \<times> rat) list"

record drainer =
  d_stock_df :: "stock_row list"
  d_adu_df :: "adu_row list"
  d_bodega_principal :: string
  d_no_seed :: bool
  d_allow_seed_if_adu :: bool
  d_transfers :: "transfer list"
  d_idx_tienda_sku :: index
  d_adu_map :: adu_index




definition drainer_get_adu :: "drainer \<Rightarrow> string \<Rightarrow> string \<Rightarrow> rat" where
  "drainer_get_adu d tienda sku =
     (case map_of (d_adu_map d) (tienda, sku) of None \<Rightarrow> 0 | Some a \<Rightarrow> a)"



definition drainer_can_seed_to_store :: "drainer \<Rightarrow> string \<Rightarrow> string \<Rightarrow> string \<Rightarrow> bool" where
  "drainer_can_seed_to_store d tienda referencia sku =
     (if has_ref_now (d_stock_df d) tienda referencia then True
      else if d_no_seed d then
        (if d_allow_seed_if_adu d \<and> drainer_get_adu d tienda sku > 0 then True else False)
      else True)"










section \<open>traslados/curve\_completer.py\<close>


















section \<open>traslados/orchestrator.py\<close>


section \<open>Notions used to state the properties\<close>

definition engine_ok :: "engine \<Rightarrow> bool" where
  "engine_ok e = index_ok (stock_df e) (idx_tienda_sku e)"








section \<open>Example tables\<close>

definition example_row ::
  "string \<Rightarrow> string \<Rightarrow> string \<Rightarrow> rat \<Rightarrow> rat \<Rightarrow> string option \<Rightarrow> int option \<Rightarrow> stock_row" where
  "example_row tienda ref talla existencia adu region region_id =
     \<lparr>Tienda = tienda, SKU = ref @ talla, Referencia = ref, Talla = talla,
      Existencia = existencia, ADU = Some adu, IsEcom = False, MinObjetivo = 0,
      Region = region, RegionID = region_id,
      Cobertura_dias = (if adu > 0 then Fin (existencia / adu) else PInf)\<rparr>"

text \<open>The fixtures of \<open>tests/test_traslados_engine.py\<close>.\<close>

definition seeding_stock :: "stock_row list" where
  "seeding_stock =
     [example_row ''CALI CHIPICHAPE'' ''1234567'' ''12M'' 5 1 None None,
      example_row ''CALI CHIPICHAPE'' ''1234567'' ''18M'' 3 (8 / 10) None None,
      example_row ''CALI UNICENTRO'' ''9876543'' ''18M'' 10 2 None None,
      example_row ''BODEGA PRINCIPAL'' ''1234567'' ''12M'' 50 0 None None,
      example_row ''BODEGA PRINCIPAL'' ''1234567'' ''18M'' 40 0 None None]"

definition seeding_adu :: "adu_row list" where
  "seeding_adu =
     [\<lparr>adu_Tienda = ''CALI CHIPICHAPE'', adu_SKU = ''123456712M'', adu_ADU = 1\<rparr>,
      \<lparr>adu_Tienda = ''CALI CHIPICHAPE'', adu_SKU = ''123456718M'', adu_ADU = 8 / 10\<rparr>,
      \<lparr>adu_Tienda = ''CALI UNICENTRO'', adu_SKU = ''123456718M'', adu_ADU = 1 / 2\<rparr>,
      \<lparr>adu_Tienda = ''CALI UNICENTRO'', adu_SKU = ''987654318M'', adu_ADU = 2\<rparr>]"

definition seeding_engine :: engine where
  "seeding_engine =
     TrasladosEngineCore seeding_stock seeding_adu [] (Some ''BODEGA PRINCIPAL'') True False"

definition ranking_stock :: "stock_row list" where
  "ranking_stock =
     [example_row ''CALI CHIPICHAPE'' ''1234567'' ''18M'' 1 2 (Some ''VALLE'') (Some 4),
      example_row ''CALI UNICENTRO'' ''1234567'' ''18M'' 20 1 (Some ''VALLE'') (Some 4),
      example_row ''BARRANQUILLA UNICO'' ''1234567'' ''18M'' 15 1 (Some ''ATLANTICO'') (Some 1),
      example_row ''BODEGA PRINCIPAL'' ''1234567'' ''18M'' 100 0 (Some ''VALLE'') (Some 4)]"

definition ranking_tiempos :: "tiempos_row list" where
  "ranking_tiempos =
     [\<lparr>t_O = ''BODEGA PRINCIPAL'', t_D = ''CALI CHIPICHAPE'', t_ETA_NUM = Some 2, t_PRI_NUM = Some 1\<rparr>,
      \<lparr>t_O = ''CALI UNICENTRO'', t_D = ''CALI CHIPICHAPE'', t_ETA_NUM = Some 1, t_PRI_NUM = Some 2\<rparr>,
      \<lparr>t_O = ''BARRANQUILLA UNICO'', t_D = ''CALI CHIPICHAPE'', t_ETA_NUM = Some 3, t_PRI_NUM = Some 3\<rparr>]"

definition ranking_engine :: engine where
  "ranking_engine =
     TrasladosEngineCore ranking_stock [] ranking_tiempos (Some ''BODEGA PRINCIPAL'') True False"




text \<open>A warehouse holding one SKU in two physical rows of unequal quantity.\<close>

definition split_stock :: "stock_row list" where
  "split_stock =
     [example_row ''BODEGA PRINCIPAL'' ''1234567'' ''18M'' 1 0 None None,
      example_row ''BODEGA PRINCIPAL'' ''1234567'' ''18M'' 5 0 None None,
      example_row ''CALI CHIPICHAPE'' ''1234567'' ''18M'' 0 1 None None]"



text \<open>The scenario of the specification: the warehouse holds 100 units with no sales, the
  store holds 2 units and sells one a day; and the same with the store holding 1 unit.\<close>

definition scenario_stock :: "rat \<Rightarrow> stock_row list" where
  "scenario_stock store_quantity =
     [example_row ''BODEGA PRINCIPAL'' ''1234567'' ''18M'' 100 0 None None,
      example_row ''CALI CHIPICHAPE'' ''1234567'' ''18M'' store_quantity 1 None None]"

definition scenario_fase1 :: "rat \<Rightarrow> engine" where
  "scenario_fase1 store_quantity =
     run_fase1 (scenario_stock store_quantity) [] [] (Some ''BODEGA PRINCIPAL'') True False"




section \<open>Row updates and the index\<close>

lemma length_loc_add_from: "length (loc_add_from k is d rs) = length rs"
  by (induction rs arbitrary: k) auto

lemma length_loc_add: "length (loc_add is d rs) = length rs"
  by (simp add: loc_add_def length_loc_add_from)

lemma nth_loc_add_from:
  "i < length rs \<Longrightarrow>
     loc_add_from k is d rs ! i =
       (if k + i \<in> set is then (rs ! i)\<lparr>Existencia := Existencia (rs ! i) + d\<rparr> else rs ! i)"
proof (induction rs arbitrary: k i)
  case Nil
  then show ?case by simp
next
  case (Cons r rs)
  show ?case
  proof (cases i)
    case 0
    then show ?thesis by simp
  next
    case (Suc j)
    with Cons.prems have "j < length rs" by simp
    from Cons.IH [OF this, of "Suc k"] Suc show ?thesis by simp
  qed
qed

lemma nth_loc_add:
  "i < length rs \<Longrightarrow>
     loc_add is d rs ! i =
       (if i \<in> set is then (rs ! i)\<lparr>Existencia := Existencia (rs ! i) + d\<rparr> else rs ! i)"
  using nth_loc_add_from [of i rs 0 "is" d] by (simp add: loc_add_def)

lemma key_loc_add:
  "i < length rs \<Longrightarrow> Tienda (loc_add is d rs ! i) = Tienda (rs ! i)
                      \<and> SKU (loc_add is d rs ! i) = SKU (rs ! i)"
  by (simp add: nth_loc_add)

lemma card_inter_step:
  "card (set is \<inter> {k..<Suc (k + n)}) =
     (if k \<in> set is then 1 else 0) + card (set is \<inter> {Suc k..<Suc (k + n)})"
proof -
  have split: "{k..<Suc (k + n)} = insert k {Suc k..<Suc (k + n)}" by auto
  show ?thesis
  proof (cases "k \<in> set is")
    case True
    then have "set is \<inter> {k..<Suc (k + n)} = insert k (set is \<inter> {Suc k..<Suc (k + n)})"
      using split by auto
    moreover have "k \<notin> set is \<inter> {Suc k..<Suc (k + n)}" by simp
    ultimately show ?thesis using True by simp
  next
    case False
    then have "set is \<inter> {k..<Suc (k + n)} = set is \<inter> {Suc k..<Suc (k + n)}"
      using split by auto
    then show ?thesis using False by simp
  qed
qed

lemma total_loc_add_from:
  "total_existencia (loc_add_from k is d rs) =
     total_existencia rs + d * of_nat (card (set is \<inter> {k..<k + length rs}))"
proof (induction rs arbitrary: k)
  case Nil
  then show ?case by (simp add: total_existencia_def)
next
  case (Cons r rs)
  have "total_existencia (loc_add_from k is d (r # rs)) =
          (if k \<in> set is then Existencia r + d else Existencia r)
            + total_existencia (loc_add_from (Suc k) is d rs)"
    by (simp add: total_existencia_def)
  also have "\<dots> = (if k \<in> set is then Existencia r + d else Existencia r)
            + (total_existencia rs + d * of_nat (card (set is \<inter> {Suc k..<Suc k + length rs})))"
    by (simp only: Cons.IH)
  finally show ?case
    using card_inter_step [of "is" k "length rs"]
    by (simp add: total_existencia_def algebra_simps)
qed

lemma total_loc_add:
  assumes "distinct is" and "\<forall>i\<in>set is. i < length rs"
  shows "total_existencia (loc_add is d rs) = total_existencia rs + d * of_nat (length is)"
proof -
  have "set is \<inter> {0..<0 + length rs} = set is" using assms(2) by auto
  then have "card (set is \<inter> {0..<0 + length rs}) = length is"
    using assms(1) by (simp add: distinct_card)
  then show ?thesis
    unfolding loc_add_def using total_loc_add_from [of 0 "is" d rs] by simp
qed

lemma total_append: "total_existencia (rs @ [r]) = total_existencia rs + Existencia r"
  by (simp add: total_existencia_def)

lemma index_okD:
  assumes "index_ok rows idx" "map_of idx k = Some is"
  shows "is \<noteq> []" and "distinct is"
    and "\<forall>i\<in>set is. i < length rows \<and> (Tienda (rows ! i), SKU (rows ! i)) = k"
proof -
  have "(k, is) \<in> set idx" using assms(2) by (rule map_of_SomeD)
  then have "is \<noteq> [] \<and> distinct is
      \<and> (\<forall>i\<in>set is. i < length rows \<and> (Tienda (rows ! i), SKU (rows ! i)) = k)"
    using assms(1) by (auto simp: index_ok_def list_all_iff)
  then show "is \<noteq> []" and "distinct is"
    and "\<forall>i\<in>set is. i < length rows \<and> (Tienda (rows ! i), SKU (rows ! i)) = k"
    by blast+
qed

lemma total_debit:
  assumes "index_ok rows idx" "map_of idx k = Some is"
  shows "total_existencia (loc_add is (- (q / of_nat (length is))) rows) = total_existencia rows - q"
proof -
  have "\<forall>i\<in>set is. i < length rows" using index_okD(3) [OF assms] by blast
  from total_loc_add [OF index_okD(2) [OF assms] this, of "- (q / of_nat (length is))"]
    index_okD(1) [OF assms]
  show ?thesis by simp
qed

lemma total_credit:
  assumes "index_ok rows idx" "map_of idx k = Some is"
  shows "total_existencia (loc_add is (q / of_nat (length is)) rows) = total_existencia rows + q"
proof -
  have "\<forall>i\<in>set is. i < length rows" using index_okD(3) [OF assms] by blast
  from total_loc_add [OF index_okD(2) [OF assms] this, of "q / of_nat (length is)"]
    index_okD(1) [OF assms]
  show ?thesis by simp
qed

lemma index_ok_loc_add: "index_ok rows idx \<Longrightarrow> index_ok (loc_add is d rows) idx"
  by (auto simp: index_ok_def list_all_iff length_loc_add nth_loc_add)








lemma map_of_update_keeps:
  "map_of idx k \<noteq> None \<Longrightarrow> map_of (AList.update k' v idx) k \<noteq> None"
  by (simp add: update_conv')

section \<open>The base-needs engine\<close>



lemma new_row_fields:
  "Existencia (create_new_stock_row e tienda sku referencia talla cantidad) = of_int cantidad"
  "Tienda (create_new_stock_row e tienda sku referencia talla cantidad) = tienda"
  "SKU (create_new_stock_row e tienda sku referencia talla cantidad) = sku"
  by (simp_all add: create_new_stock_row_def Let_def)

lemma execute_transfer_blocked:
  assumes "map_of (idx_tienda_sku e) (destino, sku) = None"
    and "\<not> can_seed_to_store e destino referencia sku"
  shows "execute_transfer e origen destino sku cantidad referencia talla = (False, e)"
  using assms by (simp add: execute_transfer_def)

lemma execute_transfer_fst:
  "fst (execute_transfer e origen destino sku cantidad referencia talla) =
     (map_of (idx_tienda_sku e) (destino, sku) \<noteq> None
        \<or> can_seed_to_store e destino referencia sku)"
  by (auto simp: execute_transfer_def Let_def)



lemma execute_transfer_total:
  assumes "engine_ok e"
  shows "total_existencia (stock_df (snd (execute_transfer e origen destino sku q r t))) =
           total_existencia (stock_df e)
             + (if fst (execute_transfer e origen destino sku q r t)
                   \<and> map_of (idx_tienda_sku e) (origen, sku) = None
                then of_int q else 0)"
proof -
  have ok: "index_ok (stock_df e) (idx_tienda_sku e)" using assms by (simp add: engine_ok_def)
  show ?thesis
  proof (cases "map_of (idx_tienda_sku e) (origen, sku)")
    case None
    show ?thesis
    proof (cases "map_of (idx_tienda_sku e) (destino, sku)")
      case dNone: None
      with None show ?thesis
        by (simp add: execute_transfer_def Let_def total_append new_row_fields)
    next
      case (Some ds)
      with None total_credit [OF ok Some, of "of_int q"] show ?thesis
        by (simp add: execute_transfer_def Let_def)
    qed
  next
    case (Some os)
    let ?rows1 = "loc_add os (- (of_int q / of_nat (length os))) (stock_df e)"
    have t1: "total_existencia ?rows1 = total_existencia (stock_df e) - of_int q"
      using total_debit [OF ok Some] .
    have ok1: "index_ok ?rows1 (idx_tienda_sku e)" using ok by (rule index_ok_loc_add)
    show ?thesis
    proof (cases "map_of (idx_tienda_sku e) (destino, sku)")
      case None
      with Some t1 show ?thesis
        by (simp add: execute_transfer_def Let_def total_append new_row_fields)
    next
      case dSome: (Some ds)
      with Some t1 total_credit [OF ok1 dSome, of "of_int q"] show ?thesis
        by (simp add: execute_transfer_def Let_def)
    qed
  qed
qed









section \<open>Properties of the engine's operations\<close>

lemma can_seed_to_store_iff:
  "can_seed_to_store e tienda referencia sku \<longleftrightarrow>
     has_ref_now (stock_df e) tienda referencia
       \<or> \<not> no_seed e
       \<or> (allow_seed_if_adu e \<and> get_adu_for_sku e tienda sku > 0)"
  by (simp add: can_seed_to_store_def)

lemma drainer_can_seed_to_store_iff:
  "drainer_can_seed_to_store d tienda referencia sku \<longleftrightarrow>
     has_ref_now (d_stock_df d) tienda referencia
       \<or> \<not> d_no_seed d
       \<or> (d_allow_seed_if_adu d \<and> drainer_get_adu d tienda sku > 0)"
  by (simp add: drainer_can_seed_to_store_def)



text \<open>
  Claim C9: when the destination has no stock row for the item and the seeding gate
  denies the introduction, \<open>execute_transfer\<close> returns \<open>False\<close> and the engine it leaves is
  the engine it was given: no stock row, no index entry and no recorded transfer changes.
\<close>

theorem execute_transfer_rejects_unseeded:
  assumes "map_of (idx_tienda_sku e) (destino, sku) = None"
    and "\<not> can_seed_to_store e destino referencia sku"
  shows "execute_transfer e origen destino sku cantidad referencia talla = (False, e)"
  using assms by (rule execute_transfer_blocked)

theorem execute_transfer_rejects_unseeded_witness:
  "execute_transfer seeding_engine ''BODEGA PRINCIPAL'' ''CALI UNICENTRO'' ''123456712M'' 2
     ''1234567'' ''12M'' = (False, seeding_engine)"
proof -
  have absent: "map_of (idx_tienda_sku seeding_engine) (''CALI UNICENTRO'', ''123456712M'') = None"
    by code_simp
  have denied: "\<not> can_seed_to_store seeding_engine ''CALI UNICENTRO'' ''1234567'' ''123456712M''"
    by code_simp
  show ?thesis using execute_transfer_rejects_unseeded [OF absent denied] .
qed

text \<open>
  Claim C10: called with an origin key that has no stock row, \<open>execute_transfer\<close> succeeds
  whenever the destination holds the item or the seeding gate allows it; the table it
  leaves is the old table with only the destination credited (its rows incremented, or a
  new row appended), so the total stock grows by the transferred quantity, and one
  transfer of that quantity is recorded. No hypothesis bounds the quantity.
\<close>

theorem execute_transfer_missing_origin:
  assumes "engine_ok e"
    and "map_of (idx_tienda_sku e) (origen, sku) = None"
    and "map_of (idx_tienda_sku e) (destino, sku) \<noteq> None
           \<or> can_seed_to_store e destino referencia sku"
  shows "fst (execute_transfer e origen destino sku cantidad referencia talla)
     \<and> stock_df (snd (execute_transfer e origen destino sku cantidad referencia talla)) =
         (case map_of (idx_tienda_sku e) (destino, sku) of
            Some indices_destino \<Rightarrow>
              loc_add indices_destino (of_int cantidad / of_nat (length indices_destino))
                (stock_df e)
          | None \<Rightarrow>
              stock_df e @ [create_new_stock_row e destino sku referencia talla cantidad])
     \<and> total_existencia
          (stock_df (snd (execute_transfer e origen destino sku cantidad referencia talla))) =
         total_existencia (stock_df e) + of_int cantidad
     \<and> map Unidades_a_trasladar
          (transfers (snd (execute_transfer e origen destino sku cantidad referencia talla))) =
         map Unidades_a_trasladar (transfers e) @ [cantidad]"
proof -
  let ?x = "execute_transfer e origen destino sku cantidad referencia talla"
  have ok: "fst ?x" using assms(3) by (simp add: execute_transfer_fst)
  have rows: "stock_df (snd ?x) =
         (case map_of (idx_tienda_sku e) (destino, sku) of
            Some indices_destino \<Rightarrow>
              loc_add indices_destino (of_int cantidad / of_nat (length indices_destino))
                (stock_df e)
          | None \<Rightarrow>
              stock_df e @ [create_new_stock_row e destino sku referencia talla cantidad])"
    using assms(2,3) by (auto simp: execute_transfer_def Let_def split: option.splits)
  have tot: "total_existencia (stock_df (snd ?x)) = total_existencia (stock_df e) + of_int cantidad"
    using execute_transfer_total [OF assms(1), of origen destino sku cantidad referencia talla]
      ok assms(2) by simp
  have rec: "map Unidades_a_trasladar (transfers (snd ?x)) =
               map Unidades_a_trasladar (transfers e) @ [cantidad]"
    using assms(2,3) by (auto simp: execute_transfer_def Let_def split: option.splits)
  from ok rows tot rec show ?thesis by blast
qed

theorem execute_transfer_missing_origin_witness:
  "fst (execute_transfer seeding_engine ''CALI UNICENTRO'' ''CALI CHIPICHAPE'' ''123456712M'' 3
          ''1234567'' ''12M'')
   \<and> total_existencia
        (stock_df (snd (execute_transfer seeding_engine ''CALI UNICENTRO'' ''CALI CHIPICHAPE''
                         ''123456712M'' 3 ''1234567'' ''12M''))) = 111
   \<and> map Unidades_a_trasladar
        (transfers (snd (execute_transfer seeding_engine ''CALI UNICENTRO'' ''CALI CHIPICHAPE''
                           ''123456712M'' 3 ''1234567'' ''12M''))) = [3]"
proof -
  have ok: "engine_ok seeding_engine" by code_simp
  have absent: "map_of (idx_tienda_sku seeding_engine) (''CALI UNICENTRO'', ''123456712M'') = None"
    by code_simp
  have dest: "map_of (idx_tienda_sku seeding_engine) (''CALI CHIPICHAPE'', ''123456712M'') \<noteq> None
                \<or> can_seed_to_store seeding_engine ''CALI CHIPICHAPE'' ''1234567'' ''123456712M''"
    by code_simp
  have before: "total_existencia (stock_df seeding_engine) = 108" by code_simp
  have none: "transfers seeding_engine = []" by code_simp
  let ?x = "execute_transfer seeding_engine ''CALI UNICENTRO'' ''CALI CHIPICHAPE''
              ''123456712M'' 3 ''1234567'' ''12M''"
  from execute_transfer_missing_origin [OF ok absent dest, of 3 "''12M''"]
  have "fst ?x"
    and "total_existencia (stock_df (snd ?x)) = total_existencia (stock_df seeding_engine) + of_int 3"
    and "map Unidades_a_trasladar (transfers (snd ?x)) =
           map Unidades_a_trasladar (transfers seeding_engine) @ [3]"
    by blast+
  with before none show ?thesis by simp
qed

text \<open>
  Claim C7: when a warehouse is designated and it is among the origins that
  \<open>rank_origins_for_sku\<close> returns, it is the first of them, whatever the sort keys are.
\<close>

theorem rank_origins_bodega_first:
  assumes "bodega_principal e = Some bodega" and "bodega \<noteq> []"
    and "bodega \<in> set (rank_origins_for_sku e sku dest_tienda dest_referencia)"
  shows "\<exists>rest. rank_origins_for_sku e sku dest_tienda dest_referencia = bodega # rest"
proof -
  define xs where
    "xs = map snd (sort_key fst (map (rank_tuple e sku dest_tienda) (candidates e sku dest_tienda)))"
  have res: "rank_origins_for_sku e sku dest_tienda dest_referencia =
               (if bodega \<in> set xs then bodega # remove1 bodega xs else xs)"
    using assms(1,2) by (simp add: rank_origins_for_sku_def Let_def xs_def)
  show ?thesis
  proof (cases "bodega \<in> set xs")
    case True
    then show ?thesis by (simp add: res)
  next
    case False
    with assms(3) show ?thesis by (simp add: res)
  qed
qed

theorem rank_origins_bodega_first_witness:
  "rank_origins_for_sku ranking_engine ''123456718M'' ''CALI CHIPICHAPE'' ''1234567''
     = [''BODEGA PRINCIPAL'', ''CALI UNICENTRO'', ''BARRANQUILLA UNICO'']"
proof -
  have b: "bodega_principal ranking_engine = Some ''BODEGA PRINCIPAL''" by code_simp
  have ne: "''BODEGA PRINCIPAL'' \<noteq> []" by simp
  have mem: "''BODEGA PRINCIPAL''
      \<in> set (rank_origins_for_sku ranking_engine ''123456718M'' ''CALI CHIPICHAPE'' ''1234567'')"
    by code_simp
  from rank_origins_bodega_first [OF b ne mem]
  obtain rest where r: "rank_origins_for_sku ranking_engine ''123456718M'' ''CALI CHIPICHAPE''
      ''1234567'' = ''BODEGA PRINCIPAL'' # rest" by blast
  have "tl (rank_origins_for_sku ranking_engine ''123456718M'' ''CALI CHIPICHAPE'' ''1234567'')
          = [''CALI UNICENTRO'', ''BARRANQUILLA UNICO'']"
    by code_simp
  with r show ?thesis by simp
qed







text \<open>
  Claim C2 on the code: the warehouse holds the item in two rows of 1 and 5 units and a
  store with no stock sells one unit a day. Phase 1 sends 6 units and takes 3 from each
  warehouse row, which leaves the first row at -2.
\<close>

theorem fase1_negative_row:
  "map Existencia
     (stock_df (run_fase1 split_stock [] [] (Some ''BODEGA PRINCIPAL'') True False)) = [- 2, 2, 6]
   \<and> map Unidades_a_trasladar
       (transfers (run_fase1 split_stock [] [] (Some ''BODEGA PRINCIPAL'') True False)) = [6]"
  by code_simp

text \<open>
  Claim C4 as stated fails: in the scenario's state the target is 6, not 7, and phase 1
  executes no transfer.
\<close>

theorem scenario_as_stated_fails:
  "\<not> (calculate_target_units (scenario_fase1 2) ''CALI CHIPICHAPE'' ''123456718M'' = 7
      \<and> map Unidades_a_trasladar (transfers (scenario_fase1 2)) = [5]
      \<and> map Existencia (stock_df (scenario_fase1 2)) = [95, 7])"
  by code_simp

text \<open>
  Claim C4, amended: in the scenario's state the target of the destination is 6 (7 days of
  demand, capped at the capacity 6 of an item); holding 2 units, its minimum, the
  destination is no shortfall, phase 1 executes no transfer and leaves 100 units in the
  warehouse and 2 in the store. With 1 unit in the store instead, phase 1 sends 5 units
  from the warehouse, leaving the store with 6 and the warehouse with 95.
\<close>

theorem scenario_fase1_outcome:
  "calculate_target_units
     (TrasladosEngineCore (scenario_stock 2) [] [] (Some ''BODEGA PRINCIPAL'') True False)
     ''CALI CHIPICHAPE'' ''123456718M'' = 6
   \<and> identify_base_needs
       (TrasladosEngineCore (scenario_stock 2) [] [] (Some ''BODEGA PRINCIPAL'') True False) = []
   \<and> transfers (scenario_fase1 2) = []
   \<and> map Existencia (stock_df (scenario_fase1 2)) = [100, 2]
   \<and> map (\<lambda>t. (Tienda_origen t, Tienda_destino t, Unidades_a_trasladar t))
       (transfers (scenario_fase1 1)) = [(''BODEGA PRINCIPAL'', ''CALI CHIPICHAPE'', 5)]
   \<and> map Existencia (stock_df (scenario_fase1 1)) = [95, 6]"
  by code_simp

theorem scenario_fase1_outcome_witness:
  "map Existencia (stock_df (scenario_fase1 2)) = [100, 2]
   \<and> map Existencia (stock_df (scenario_fase1 1)) = [95, 6]"
  using scenario_fase1_outcome by blast

theorem fase1_negative_row_witness:
  "Existencia
     (stock_df (run_fase1 split_stock [] [] (Some ''BODEGA PRINCIPAL'') True False) ! 0) < 0"
proof -
  from fase1_negative_row
  have "map Existencia
     (stock_df (run_fase1 split_stock [] [] (Some ''BODEGA PRINCIPAL'') True False)) = [- 2, 2, 6]"
    by blast
  then show ?thesis by (auto simp: map_eq_Cons_conv)
qed

section \<open>The warehouse drainer\<close>


















section \<open>The curve completer\<close>










section \<open>Conservation\<close>






end
